theory Spec2Isabelle
  imports Main
begin

section \<open>Observable effects\<close>

text \<open>
  The program talks to the terminal (\<open>console.log\<close>, \<open>chalk\<close>, \<open>ora\<close>) and, in the design
  document, to the version-control backend (\<open>simple-git\<close>). Every such call is recorded as
  an event, in the order the code makes it.
\<close>

type_synonym path = string

datatype colour = Yellow | Green | Red

datatype styled = Plain string | Chalk colour string

datatype git_call =
    CheckIsRepo
  | Status
  | Add string
  | Commit string
  | PullRebase
  | RebaseAbort
  | Push
  | ResetSoftParent
  | ResetHead

datatype event =
    ConsoleLog styled
  | SpinnerStart string
  | SpinnerSucceed styled
  | SpinnerFail styled
  | CommanderWrite string
  | GitCall git_call

fun is_git_call :: "event \<Rightarrow> bool" where
  "is_git_call (GitCall c) = True"
| "is_git_call e = False"


section \<open>The shipped command-line skeleton\<close>

text \<open>
  \<open>src/index.ts\<close> and \<open>src/commands/test.ts\<close>. A \<open>Command\<close> of the commander library is a
  record of what the code sets on it; an action is a function of the world it runs in
  (working directory, repository) that returns what it prints and the world it leaves.
\<close>

record 'w command =
  cmd_name :: string
  cmd_description :: string
  cmd_action :: "'w \<Rightarrow> event list \<times> 'w"

record 'w program =
  prog_name :: string
  prog_description :: string
  prog_version :: string
  commands :: "'w command list"

text \<open>\<open>new Command()\<close>: nothing set, nothing registered.\<close>

definition new_Command :: "'w program" where
  "new_Command =
     \<lparr>prog_name = [], prog_description = [], prog_version = [], commands = []\<rparr>"

text \<open>The arrow function passed to \<open>.action\<close> in \<open>commands/test.ts\<close>.\<close>

definition test_action :: "'w \<Rightarrow> event list \<times> 'w" where
  "test_action w = ([ConsoleLog (Plain ''Running tests...'')], w)"

text \<open>\<open>loadCommands\<close> of \<open>commands/test.ts\<close>: one call of \<open>program.command\<close>.\<close>

definition loadCommands :: "'w program \<Rightarrow> 'w program" where
  "loadCommands p =
     p\<lparr>commands := commands p @
        [\<lparr>cmd_name = ''test'', cmd_description = ''Run tests'',
          cmd_action = test_action\<rparr>]\<rparr>"

text \<open>
  The program object of \<open>index.ts\<close> at the moment \<open>program.parse\<close> is called.
\<close>

definition ghts :: "'w program" where
  "ghts =
     loadCommands
       (new_Command
          \<lparr>prog_name := ''ghts'',
           prog_description := ''Git and Github tool for simple commands'',
           prog_version := ''1.0.0''\<rparr>)"

text \<open>
  Commander's own argument handling is library code. It is a parameter: given the names
  of the registered subcommands and the argument vector, it either selects a subcommand
  by name or answers by itself (help, version, an error about the arguments).
\<close>

datatype route = RunCommand string | BuiltIn "string list"

type_synonym commander = "string list \<Rightarrow> string list \<Rightarrow> route"

definition parse ::
  "commander \<Rightarrow> 'w program \<Rightarrow> string list \<Rightarrow> 'w \<Rightarrow> event list \<times> 'w" where
  "parse cmdr p argv w =
     (case cmdr (map cmd_name (commands p)) argv of
        RunCommand n \<Rightarrow>
          (case find (\<lambda>c. cmd_name c = n) (commands p) of
             Some c \<Rightarrow> cmd_action c w
           | None \<Rightarrow> ([], w))
      | BuiltIn out \<Rightarrow> (map CommanderWrite out, w))"

text \<open>
  The module body of \<open>index.ts\<close>: the banner, then \<open>program.parse(process.argv)\<close>.
  \<open>figlet.textSync\<close> is library code and a parameter.
\<close>

definition main ::
  "(string \<Rightarrow> string) \<Rightarrow> commander \<Rightarrow> string list \<Rightarrow> 'w \<Rightarrow> event list \<times> 'w" where
  "main figlet cmdr argv w =
     (let (out, w') = parse cmdr ghts argv w
      in (ConsoleLog (Plain (figlet ''ghts'')) # out, w'))"

text \<open>The operations the specification exposes to the command-line layer.\<close>

definition exposed_operations :: "string list" where
  "exposed_operations = [''save'', ''sync'', ''undo'', ''history'']"


section \<open>The save guardrail of the design document\<close>

text \<open>
  \<open>safeSnap\<close> of \<open>document.md\<close> calls the \<open>simple-git\<close> object \<open>git\<close>. That object is
  library code and a parameter: a record of the four calls \<open>safeSnap\<close> makes, over any
  type \<open>'r\<close> of repositories. The two queries read the repository; \<open>add\<close> and \<open>commit\<close>
  return the repository they leave, with the error when the promise rejects.
\<close>

datatype git_error = GitError string

record 'r git =
  git_checkIsRepo :: "'r \<Rightarrow> git_error + bool"
  git_status_isClean :: "'r \<Rightarrow> git_error + bool"
  git_add :: "string \<Rightarrow> 'r \<Rightarrow> git_error option \<times> 'r"
  git_commit :: "string \<Rightarrow> 'r \<Rightarrow> git_error option \<times> 'r"

text \<open>How the promise of an \<open>async\<close> function settles.\<close>

datatype failure = Error string | Rejection git_error

datatype completion = Fulfilled | Thrown failure

text \<open>The warning sign U+26A0, as its three UTF-8 bytes.\<close>

definition warning_sign :: string where
  "warning_sign = [CHR 0xE2, CHR 0x9A, CHR 0xA0]"

text \<open>
  \<open>safeSnap(message)\<close>, branch by branch. An awaited call that rejects outside the
  \<open>try\<close> block rejects \<open>safeSnap\<close>; inside it, the \<open>catch\<close> block marks the spinner
  as failed and the function returns normally.
\<close>

definition safeSnap ::
  "'r git \<Rightarrow> string \<Rightarrow> 'r \<Rightarrow> completion \<times> event list \<times> 'r" where
  "safeSnap g message r =
     (case git_checkIsRepo g r of
        Inl e \<Rightarrow> (Thrown (Rejection e), [GitCall CheckIsRepo], r)
      | Inr isRepo \<Rightarrow>
          if \<not> isRepo
          then (Thrown (Error ''Initialize git first!''), [GitCall CheckIsRepo], r)
          else
            (case git_status_isClean g r of
               Inl e \<Rightarrow> (Thrown (Rejection e), [GitCall CheckIsRepo, GitCall Status], r)
             | Inr clean \<Rightarrow>
                 if clean
                 then (Fulfilled,
                       [GitCall CheckIsRepo, GitCall Status,
                        ConsoleLog (Chalk Yellow (warning_sign @ '' Everything is up to date.''))],
                       r)
                 else
                   (case git_add g ''.'' r of
                      (Some e, r1) \<Rightarrow>
                        (Fulfilled,
                         [GitCall CheckIsRepo, GitCall Status,
                          SpinnerStart ''Creating save point...'',
                          GitCall (Add ''.''),
                          SpinnerFail (Chalk Red ''Failed to save snapshot.'')],
                         r1)
                    | (None, r1) \<Rightarrow>
                        (case git_commit g (''[Snap] '' @ message) r1 of
                           (Some e, r2) \<Rightarrow>
                             (Fulfilled,
                              [GitCall CheckIsRepo, GitCall Status,
                               SpinnerStart ''Creating save point...'',
                               GitCall (Add ''.''),
                               GitCall (Commit (''[Snap] '' @ message)),
                               SpinnerFail (Chalk Red ''Failed to save snapshot.'')],
                              r2)
                         | (None, r2) \<Rightarrow>
                             (Fulfilled,
                              [GitCall CheckIsRepo, GitCall Status,
                               SpinnerStart ''Creating save point...'',
                               GitCall (Add ''.''),
                               GitCall (Commit (''[Snap] '' @ message)),
                               SpinnerSucceed (Chalk Green ''Snapshot saved locally.'')],
                              r2)))))"

fun is_commit_call :: "event \<Rightarrow> bool" where
  "is_commit_call (GitCall (Commit m)) = True"
| "is_commit_call e = False"


section \<open>A repository\<close>

text \<open>
  Modelled from the spec: the version-control backend (git, reached through
  \<open>simple-git\<close>) is not part of the sources. A repository is its history, newest commit
  first, and the pending changes that \<open>git status --porcelain\<close> lists, staged and
  unstaged; a change sets the content of a path or removes the path. The commands are
  the ones \<open>document.md\<close> names: \<open>git add .\<close> stages every pending change, \<open>git commit\<close>
  turns the staged changes into one commit and refuses when nothing is staged,
  \<open>git reset --soft HEAD~1\<close> drops the last commit and keeps its changes staged (a
  history of one commit is rewound to the empty history, following the spec's
  "removes the commit from history"), \<open>git reset HEAD\<close> unstages what is staged.
\<close>

type_synonym change = "path \<times> string option"

record commit_object =
  c_id :: nat
  c_message :: string
  c_time :: nat
  c_changes :: "change list"

record repo =
  tracked :: bool
  now :: nat
  history :: "commit_object list"
  staged :: "change list"
  unstaged :: "change list"

definition isClean :: "repo \<Rightarrow> bool" where
  "isClean r = (staged r = [] \<and> unstaged r = [])"

definition repo_add :: "repo \<Rightarrow> repo" where
  "repo_add r = r\<lparr>staged := staged r @ unstaged r, unstaged := []\<rparr>"

definition repo_commit :: "string \<Rightarrow> repo \<Rightarrow> git_error option \<times> repo" where
  "repo_commit m r =
     (if staged r = [] then (Some (GitError ''nothing to commit''), r)
      else (None,
            r\<lparr>history :=
                 \<lparr>c_id = length (history r), c_message = m, c_time = now r,
                  c_changes = staged r\<rparr> # history r,
              staged := []\<rparr>))"

definition repo_reset_soft_parent :: "repo \<Rightarrow> repo" where
  "repo_reset_soft_parent r =
     (case history r of
        [] \<Rightarrow> r
      | c # cs \<Rightarrow> r\<lparr>history := cs, staged := c_changes c @ staged r\<rparr>)"

definition repo_reset_head :: "repo \<Rightarrow> repo" where
  "repo_reset_head r = r\<lparr>staged := [], unstaged := staged r @ unstaged r\<rparr>"

text \<open>The contents of the files of the working tree: every change, oldest first.\<close>

definition all_changes :: "repo \<Rightarrow> change list" where
  "all_changes r = concat (rev (map c_changes (history r))) @ staged r @ unstaged r"

definition working_tree :: "repo \<Rightarrow> path \<Rightarrow> string option" where
  "working_tree r = fold (\<lambda>(p, c) t. t(p := c)) (all_changes r) (\<lambda>p. None)"

text \<open>The \<open>git\<close> object over this repository.\<close>

definition local_git :: "repo git" where
  "local_git =
     \<lparr>git_checkIsRepo = (\<lambda>r. Inr (tracked r)),
      git_status_isClean = (\<lambda>r. Inr (isClean r)),
      git_add = (\<lambda>p r. (None, repo_add r)),
      git_commit = repo_commit\<rparr>"

text \<open>The world an action of the command-line program runs in.\<close>

record world =
  cwd :: path
  repository :: repo


section \<open>The undo guard\<close>

text \<open>
  Modelled from the spec: \<open>lastSnapshot\<close> and \<open>undoLast\<close> (sections 3 and 4.6) are not in
  the sources; \<open>document.md\<close> gives the two commands of the rewind. \<open>createdByTool\<close> is
  inferred from the message; the spec leaves the test open, so it is the parameter
  \<open>tool\<close>. What \<open>undoLast\<close> answers on an empty history is not specified: it is
  \<open>NothingToUndo\<close> here and the repository is left alone.
\<close>

record SnapshotRecord =
  snapshot_id :: nat
  message :: string
  createdByTool :: bool
  timestamp :: nat

datatype UndoOutcome = Undone SnapshotRecord | UnsafeUndo | NothingToUndo

definition lastSnapshot :: "(string \<Rightarrow> bool) \<Rightarrow> repo \<Rightarrow> SnapshotRecord option" where
  "lastSnapshot tool r =
     (case history r of
        [] \<Rightarrow> None
      | c # cs \<Rightarrow>
          Some \<lparr>snapshot_id = c_id c, message = c_message c,
                createdByTool = tool (c_message c), timestamp = c_time c\<rparr>)"

definition undoLast ::
  "(string \<Rightarrow> bool) \<Rightarrow> bool \<Rightarrow> repo \<Rightarrow> UndoOutcome \<times> event list \<times> repo" where
  "undoLast tool force r =
     (case lastSnapshot tool r of
        None \<Rightarrow> (NothingToUndo, [], r)
      | Some s \<Rightarrow>
          if \<not> createdByTool s \<and> \<not> force then (UnsafeUndo, [], r)
          else (Undone s, [GitCall ResetSoftParent, GitCall ResetHead],
                repo_reset_head (repo_reset_soft_parent r)))"

text \<open>A message test for the examples: the message starts with \<open>[Snap\<close>.\<close>

definition snap_prefixed :: "string \<Rightarrow> bool" where
  "snap_prefixed m = (take 5 m = ''[Snap'')"


section \<open>The sync protocol\<close>

text \<open>
  Modelled from the spec: \<open>sync\<close> (section 4.5) is not in the sources; \<open>document.md\<close>
  gives its flow graph (pull with rebase; on no conflicts push; on conflicts stop and
  list the files). What the backend answers to the pull and to the push are parameters.
  The states and transitions are those of section 4.5; the trace records the backend
  calls in order.
\<close>

datatype pull_result =
    NothingToPull
  | PulledFastForward
  | PulledRebased
  | PullConflicts "path set" bool

datatype PushOutcome = Published | Rejected string | NetworkFailure

datatype SyncOutcome =
    UpToDate
  | FastForwarded
  | RebasedAndPushed
  | ConflictDetected "path set"
  | PushRejected string

datatype sync_state =
    Idle
  | Pulling
  | Clean
  | InConflict "path set"
  | Pushing
  | Done
  | PushFailed string

fun sync_step ::
  "pull_result \<Rightarrow> PushOutcome \<Rightarrow> sync_state \<times> event list
     \<Rightarrow> (sync_state \<times> event list) option" where
  "sync_step pl po (Idle, tr) = Some (Pulling, tr @ [GitCall PullRebase])"
| "sync_step pl po (Pulling, tr) =
     (case pl of
        PullConflicts paths half_applied \<Rightarrow>
          Some (InConflict paths, tr @ (if half_applied then [GitCall RebaseAbort] else []))
      | _ \<Rightarrow> Some (Clean, tr))"
| "sync_step pl po (Clean, tr) = Some (Pushing, tr @ [GitCall Push])"
| "sync_step pl po (Pushing, tr) =
     (case po of
        Published \<Rightarrow> Some (Done, tr)
      | Rejected reason \<Rightarrow> Some (PushFailed reason, tr)
      | NetworkFailure \<Rightarrow> Some (PushFailed ''network failure'', tr))"
| "sync_step pl po (InConflict paths, tr) = None"
| "sync_step pl po (Done, tr) = None"
| "sync_step pl po (PushFailed reason, tr) = None"

fun steps_left :: "sync_state \<Rightarrow> nat" where
  "steps_left Idle = 4"
| "steps_left Pulling = 3"
| "steps_left Clean = 2"
| "steps_left Pushing = 1"
| "steps_left s = 0"

function sync_run ::
  "pull_result \<Rightarrow> PushOutcome \<Rightarrow> sync_state \<times> event list \<Rightarrow> sync_state \<times> event list" where
  "sync_run pl po cfg =
     (case sync_step pl po cfg of
        None \<Rightarrow> cfg
      | Some cfg' \<Rightarrow> sync_run pl po cfg')"
  by pat_completeness auto
termination
  by (relation "measure (\<lambda>(pl, po, cfg). steps_left (fst cfg))")
     (auto elim!: sync_step.elims split: pull_result.splits PushOutcome.splits)

declare sync_run.simps [simp del]

fun outcome_of :: "pull_result \<Rightarrow> sync_state \<Rightarrow> SyncOutcome option" where
  "outcome_of pl (InConflict paths) = Some (ConflictDetected paths)"
| "outcome_of pl (PushFailed reason) = Some (PushRejected reason)"
| "outcome_of NothingToPull Done = Some UpToDate"
| "outcome_of PulledFastForward Done = Some FastForwarded"
| "outcome_of PulledRebased Done = Some RebasedAndPushed"
| "outcome_of pl s = None"

definition sync :: "pull_result \<Rightarrow> PushOutcome \<Rightarrow> SyncOutcome option \<times> event list" where
  "sync pl po =
     (let (s, tr) = sync_run pl po (Idle, []) in (outcome_of pl s, tr))"


text \<open>The configurations a run of the protocol passes through, from \<open>Idle\<close>.\<close>

inductive reachable :: "pull_result \<Rightarrow> PushOutcome \<Rightarrow> sync_state \<times> event list \<Rightarrow> bool"
  for pl :: pull_result and po :: PushOutcome where
  start: "reachable pl po (Idle, [])"
| step: "reachable pl po cfg \<Longrightarrow> sync_step pl po cfg = Some cfg' \<Longrightarrow> reachable pl po cfg'"

fun is_conflict :: "pull_result \<Rightarrow> bool" where
  "is_conflict (PullConflicts paths half_applied) = True"
| "is_conflict pl = False"


section \<open>What a run says on the terminal\<close>

text \<open>The text of every line an event writes, colour dropped.\<close>

fun styled_text :: "styled \<Rightarrow> string" where
  "styled_text (Plain t) = t"
| "styled_text (Chalk c t) = t"

fun printed_text :: "event \<Rightarrow> string list" where
  "printed_text (ConsoleLog t) = [styled_text t]"
| "printed_text (SpinnerStart t) = [t]"
| "printed_text (SpinnerSucceed t) = [styled_text t]"
| "printed_text (SpinnerFail t) = [styled_text t]"
| "printed_text (CommanderWrite t) = [t]"
| "printed_text (GitCall c) = []"

definition printed_lines :: "event list \<Rightarrow> string list" where
  "printed_lines evs = concat (map printed_text evs)"

fun starts_with :: "string \<Rightarrow> string \<Rightarrow> bool" where
  "starts_with [] t = True"
| "starts_with (x # xs) [] = False"
| "starts_with (x # xs) (y # ys) = (x = y \<and> starts_with xs ys)"

fun contains_text :: "string \<Rightarrow> string \<Rightarrow> bool" where
  "contains_text s [] = (s = [])"
| "contains_text s (y # ys) = (starts_with s (y # ys) \<or> contains_text s ys)"


section \<open>Example repositories\<close>

definition clean_repo :: repo where
  "clean_repo =
     \<lparr>tracked = True, now = 7,
      history = [\<lparr>c_id = 0, c_message = ''init'', c_time = 3,
                  c_changes = [(''a.txt'', Some ''x'')]\<rparr>],
      staged = [], unstaged = []\<rparr>"

definition untracked_dir :: repo where
  "untracked_dir =
     \<lparr>tracked = False, now = 7, history = [], staged = [],
      unstaged = [(''a.txt'', Some ''x'')]\<rparr>"


definition manual_repo :: repo where
  "manual_repo =
     \<lparr>tracked = True, now = 9,
      history = [\<lparr>c_id = 1, c_message = ''release 2.0'', c_time = 8,
                   c_changes = [(''b.txt'', Some ''y'')]\<rparr>,
                 \<lparr>c_id = 0, c_message = ''[Snap 2024-01-01 14:20] fix'', c_time = 3,
                   c_changes = [(''a.txt'', Some ''x'')]\<rparr>],
      staged = [], unstaged = []\<rparr>"

definition snap_repo :: repo where
  "snap_repo =
     \<lparr>tracked = True, now = 9,
      history = [\<lparr>c_id = 1, c_message = ''[Snap 2024-01-01 14:20] fix'', c_time = 8,
                   c_changes = [(''b.txt'', Some ''y'')]\<rparr>,
                 \<lparr>c_id = 0, c_message = ''init'', c_time = 3,
                   c_changes = [(''a.txt'', Some ''x'')]\<rparr>],
      staged = [], unstaged = [(''c.txt'', Some ''z'')]\<rparr>"


section \<open>The skeleton: what is registered and what can run\<close>

lemma commands_ghts: "map cmd_name (commands (ghts :: 'w program)) = [''test'']"
  by (simp add: ghts_def loadCommands_def new_Command_def)

lemma parse_ghts_cases:
  "parse cmdr ghts argv w = test_action w
   \<or> parse cmdr ghts argv w = ([], w)
   \<or> (\<exists>out. parse cmdr ghts argv w = (map CommanderWrite out, w))"
  by (cases "cmdr [''test''] argv")
     (auto simp: parse_def ghts_def loadCommands_def new_Command_def)

text \<open>
  C1. Whatever the argument vector and whatever commander makes of it, the only
  registered subcommand is \<open>test\<close>; none of \<open>save\<close>, \<open>sync\<close>, \<open>undo\<close>, \<open>history\<close> is
  registered; a run prints the banner and then either the line of the \<open>test\<close> action,
  or nothing, or commander's own output; no event of the run is a call of the
  version-control backend, and the world is left as it was.
\<close>

theorem skeleton_only_test:
  "map cmd_name (commands (ghts :: 'w program)) = [''test'']
   \<and> filter (\<lambda>c. cmd_name c \<in> set exposed_operations) (commands (ghts :: 'w program)) = []
   \<and> map (\<lambda>c. cmd_action c w) (commands ghts) = [([ConsoleLog (Plain ''Running tests...'')], w)]
   \<and> (fst (main figlet cmdr argv w) =
          [ConsoleLog (Plain (figlet ''ghts'')), ConsoleLog (Plain ''Running tests...'')]
      \<or> fst (main figlet cmdr argv w) = [ConsoleLog (Plain (figlet ''ghts''))]
      \<or> (\<exists>out. fst (main figlet cmdr argv w) =
            ConsoleLog (Plain (figlet ''ghts'')) # map CommanderWrite out))
   \<and> filter is_git_call (fst (main figlet cmdr argv w)) = []
   \<and> snd (main figlet cmdr argv (w :: 'w)) = w"
proof -
  have regs: "map cmd_name (commands (ghts :: 'w program)) = [''test'']"
    by (rule commands_ghts)
  have none: "filter (\<lambda>c. cmd_name c \<in> set exposed_operations)
                (commands (ghts :: 'w program)) = []"
    by (simp add: ghts_def loadCommands_def new_Command_def exposed_operations_def)
  have act: "map (\<lambda>c. cmd_action c w) (commands ghts)
               = [([ConsoleLog (Plain ''Running tests...'')], w)]"
    by (simp add: ghts_def loadCommands_def new_Command_def test_action_def)
  have nogit: "filter is_git_call (map CommanderWrite out) = []" for out
    by (induction out) simp_all
  from parse_ghts_cases [of cmdr argv w]
  consider (run) "parse cmdr ghts argv w = test_action w"
    | (miss) "parse cmdr ghts argv w = ([], w)"
    | (own) out where "parse cmdr ghts argv w = (map CommanderWrite out, w)"
    by blast
  then have rest:
    "(fst (main figlet cmdr argv w) =
          [ConsoleLog (Plain (figlet ''ghts'')), ConsoleLog (Plain ''Running tests...'')]
      \<or> fst (main figlet cmdr argv w) = [ConsoleLog (Plain (figlet ''ghts''))]
      \<or> (\<exists>out. fst (main figlet cmdr argv w) =
            ConsoleLog (Plain (figlet ''ghts'')) # map CommanderWrite out))
     \<and> filter is_git_call (fst (main figlet cmdr argv w)) = []
     \<and> snd (main figlet cmdr argv w) = w"
  proof cases
    case run
    then show ?thesis by (simp add: main_def test_action_def)
  next
    case miss
    then show ?thesis by (simp add: main_def)
  next
    case own
    then show ?thesis by (auto simp: main_def nogit)
  qed
  from regs none act rest show ?thesis by blast
qed


section \<open>The test command\<close>

text \<open>
  C10. The action of the \<open>test\<close> command, the only action registered, prints the one
  line \<open>Running tests...\<close> whatever the working directory and the repository are: two
  invocations in two worlds print the same, none calls the backend, and the world is
  left as it was.
\<close>

theorem test_action_deterministic:
  "map cmd_action (commands (ghts :: world program)) = [test_action]
   \<and> fst (test_action \<lparr>cwd = d1, repository = r1\<rparr>) = [ConsoleLog (Plain ''Running tests...'')]
   \<and> fst (test_action \<lparr>cwd = d1, repository = r1\<rparr>)
       = fst (test_action \<lparr>cwd = d2, repository = r2\<rparr>)
   \<and> filter is_git_call (fst (test_action (w :: world))) = []
   \<and> snd (test_action w) = w"
  by (simp add: ghts_def loadCommands_def new_Command_def test_action_def)


section \<open>The save guardrail\<close>

text \<open>
  C2, as amended. On a tracked repository whose status is clean, \<open>safeSnap\<close> makes the
  two queries, prints the yellow notice that reads "Everything is up to date." after a
  warning sign, and returns: it calls neither \<open>add\<close> nor \<open>commit\<close>, and the repository
  is the one it was given. This holds for every backend.
\<close>

theorem safeSnap_clean_is_noop:
  assumes "git_checkIsRepo g r = Inr True" and "git_status_isClean g r = Inr True"
  shows "safeSnap g msg r =
           (Fulfilled,
            [GitCall CheckIsRepo, GitCall Status,
             ConsoleLog (Chalk Yellow (warning_sign @ '' Everything is up to date.''))],
            r)
         \<and> filter is_commit_call (fst (snd (safeSnap g msg r))) = []"
  using assms by (simp add: safeSnap_def)

theorem safeSnap_clean_is_noop_witness:
  "git_checkIsRepo local_git clean_repo = Inr True
   \<and> git_status_isClean local_git clean_repo = Inr True
   \<and> safeSnap local_git ''x'' clean_repo =
           (Fulfilled,
            [GitCall CheckIsRepo, GitCall Status,
             ConsoleLog (Chalk Yellow (warning_sign @ '' Everything is up to date.''))],
            clean_repo)
   \<and> filter is_commit_call (fst (snd (safeSnap local_git ''x'' clean_repo))) = []
   \<and> map c_message (history (snd (snd (safeSnap local_git ''x'' clean_repo)))) = [''init'']"
proof -
  have a: "git_checkIsRepo local_git clean_repo = Inr True"
    by (simp add: local_git_def clean_repo_def)
  have b: "git_status_isClean local_git clean_repo = Inr True"
    by (simp add: local_git_def clean_repo_def isClean_def)
  from safeSnap_clean_is_noop [OF a b, of "''x''"] a b show ?thesis
    by (simp add: clean_repo_def)
qed

text \<open>
  C2 as it was stated has \<open>save\<close> report "nothing to save". On a tracked, clean
  repository the only line \<open>safeSnap\<close> prints is the notice above; it is neither
  \<open>nothing to save\<close> nor \<open>Nothing to save\<close>, and it does not contain \<open>othing to save\<close>.
  The promise is fulfilled, as it is after a save and after a failed save, so the
  printed line is the whole report.
\<close>

theorem safeSnap_clean_report_counterexample:
  "git_checkIsRepo local_git clean_repo = Inr True
   \<and> git_status_isClean local_git clean_repo = Inr True
   \<and> fst (safeSnap local_git ''x'' clean_repo) = Fulfilled
   \<and> printed_lines (fst (snd (safeSnap local_git ''x'' clean_repo)))
        = [warning_sign @ '' Everything is up to date.'']
   \<and> \<not> list_ex (contains_text ''othing to save'')
          (printed_lines (fst (snd (safeSnap local_git ''x'' clean_repo))))"
  by (simp add: safeSnap_def local_git_def clean_repo_def isClean_def printed_lines_def
        warning_sign_def)






text \<open>
  C8. The pre-flight check of \<open>safeSnap\<close> fails with its not-a-repository error (the
  \<open>Error\<close> that reads "Initialize git first!") exactly when \<open>checkIsRepo\<close> answers
  false; then \<open>checkIsRepo\<close> is the only call made, so the status is never read and no
  repository state is built, and the repository is untouched. More generally, as long
  as \<open>safeSnap\<close> has not called \<open>add\<close>, the repository is the one it was given.
\<close>

theorem safeSnap_not_a_repository:
  "(fst (safeSnap g msg r) = Thrown (Error ''Initialize git first!'')
      \<longleftrightarrow> git_checkIsRepo g r = Inr False)
   \<and> (git_checkIsRepo g r = Inr False \<longrightarrow>
        safeSnap g msg r = (Thrown (Error ''Initialize git first!''), [GitCall CheckIsRepo], r))
   \<and> (GitCall (Add ''.'') \<notin> set (fst (snd (safeSnap g msg r))) \<longrightarrow>
        snd (snd (safeSnap g msg r)) = r)"
  by (auto simp: safeSnap_def split: sum.splits prod.splits option.splits)

theorem safeSnap_not_a_repository_witness:
  "git_checkIsRepo local_git untracked_dir = Inr False
   \<and> safeSnap local_git ''x'' untracked_dir =
        (Thrown (Error ''Initialize git first!''), [GitCall CheckIsRepo], untracked_dir)
   \<and> GitCall Status \<notin> set (fst (snd (safeSnap local_git ''x'' untracked_dir)))"
proof -
  have a: "git_checkIsRepo local_git untracked_dir = Inr False"
    by (simp add: local_git_def untracked_dir_def)
  from safeSnap_not_a_repository [of local_git "''x''" untracked_dir] a
  have "safeSnap local_git ''x'' untracked_dir =
        (Thrown (Error ''Initialize git first!''), [GitCall CheckIsRepo], untracked_dir)"
    by blast
  with a show ?thesis by simp
qed


section \<open>Sync: no push after a conflict\<close>

lemma sync_run_conflict:
  "sync_run (PullConflicts paths half) po (Idle, []) =
     (InConflict paths, GitCall PullRebase # (if half then [GitCall RebaseAbort] else []))"
  by (simp add: sync_run.simps)

text \<open>What is known of the trace and of the pull in each state of a run.\<close>

lemma reachable_invariant:
  assumes "reachable pl po cfg"
  shows "(case fst cfg of
            Idle \<Rightarrow> snd cfg = []
          | Pulling \<Rightarrow> snd cfg = [GitCall PullRebase]
          | Clean \<Rightarrow> \<not> is_conflict pl
          | InConflict paths \<Rightarrow>
              (\<exists>half. pl = PullConflicts paths half) \<and> GitCall Push \<notin> set (snd cfg)
          | Pushing \<Rightarrow> \<not> is_conflict pl
          | Done \<Rightarrow> \<not> is_conflict pl
          | PushFailed reason \<Rightarrow> \<not> is_conflict pl)"
  using assms
proof (induction rule: reachable.induct)
  case start
  show ?case by simp
next
  case (step cfg cfg')
  obtain s tr where cfg: "cfg = (s, tr)" by (cases cfg)
  from step.hyps(2) step.IH show ?case
    unfolding cfg
    by (cases s; cases pl; cases po) auto
qed

text \<open>
  C4. When the pull reports conflicts, \<open>sync\<close> returns \<open>ConflictDetected\<close> with the
  conflicting paths, and its trace is the pull (and the abort of a half-applied rebase):
  no push. In every run, a configuration in the conflict state has no push in its
  trace and no successor; and in a run whose pull conflicts, no configuration at all
  has a push in its trace.
\<close>

theorem sync_conflict_never_pushes:
  "sync (PullConflicts paths half) po =
     (Some (ConflictDetected paths),
      GitCall PullRebase # (if half then [GitCall RebaseAbort] else []))
   \<and> filter (\<lambda>e. e = GitCall Push) (snd (sync (PullConflicts paths half) po)) = []
   \<and> (reachable pl po (InConflict paths, tr) \<longrightarrow>
        GitCall Push \<notin> set tr \<and> sync_step pl po (InConflict paths, tr) = None)
   \<and> (reachable (PullConflicts paths half) po (s, tr) \<longrightarrow> GitCall Push \<notin> set tr)"
proof -
  have run: "sync (PullConflicts paths half) po =
     (Some (ConflictDetected paths),
      GitCall PullRebase # (if half then [GitCall RebaseAbort] else []))"
    by (simp add: sync_def sync_run_conflict)
  have nopush: "filter (\<lambda>e. e = GitCall Push) (snd (sync (PullConflicts paths half) po)) = []"
    by (simp add: run)
  have inv: "GitCall Push \<notin> set tr \<and> sync_step pl po (InConflict paths, tr) = None"
    if "reachable pl po (InConflict paths, tr)"
    using reachable_invariant [OF that] by simp
  have all: "GitCall Push \<notin> set tr" if "reachable (PullConflicts paths half) po (s, tr)"
    using reachable_invariant [OF that] by (cases s) auto
  from run nopush inv all show ?thesis by blast
qed

theorem sync_conflict_never_pushes_witness:
  "reachable (PullConflicts {''src/app.ts''} True) Published
     (InConflict {''src/app.ts''}, [GitCall PullRebase, GitCall RebaseAbort])
   \<and> GitCall Push \<notin> set [GitCall PullRebase, GitCall RebaseAbort]
   \<and> sync (PullConflicts {''src/app.ts''} True) Published =
       (Some (ConflictDetected {''src/app.ts''}), [GitCall PullRebase, GitCall RebaseAbort])"
proof -
  let ?pl = "PullConflicts {''src/app.ts''} True"
  have r0: "reachable ?pl Published (Idle, [])" by (rule reachable.start)
  have r1: "reachable ?pl Published (Pulling, [GitCall PullRebase])"
    by (rule reachable.step [OF r0]) simp
  have r2: "reachable ?pl Published
              (InConflict {''src/app.ts''}, [GitCall PullRebase, GitCall RebaseAbort])"
    by (rule reachable.step [OF r1]) simp
  from sync_conflict_never_pushes
         [where paths = "{''src/app.ts''}" and half = True and po = Published and pl = ?pl
            and tr = "[GitCall PullRebase, GitCall RebaseAbort]" and s = Pulling]
       r2
  show ?thesis by simp
qed


section \<open>Undo\<close>

lemma all_changes_undo:
  "history r = c # cs \<Longrightarrow>
   all_changes (repo_reset_head (repo_reset_soft_parent r)) = all_changes r"
  by (simp add: all_changes_def repo_reset_head_def repo_reset_soft_parent_def)

text \<open>
  C5. When the last commit was not created by the tool, \<open>undoLast\<close> without force
  answers \<open>UnsafeUndo\<close>, calls nothing and returns the repository it was given, history
  included. Without force it answers \<open>Undone\<close> only for a last commit created by the
  tool.
\<close>

theorem undoLast_refuses_foreign_commit:
  "(lastSnapshot tool r = Some s \<and> \<not> createdByTool s \<longrightarrow>
      undoLast tool False r = (UnsafeUndo, [], r))
   \<and> (fst (undoLast tool False r) = Undone s \<longrightarrow>
        lastSnapshot tool r = Some s \<and> createdByTool s)"
  by (auto simp: undoLast_def split: option.splits if_splits)

theorem undoLast_refuses_foreign_commit_witness:
  "lastSnapshot snap_prefixed manual_repo =
      Some \<lparr>snapshot_id = 1, message = ''release 2.0'', createdByTool = False, timestamp = 8\<rparr>
   \<and> undoLast snap_prefixed False manual_repo = (UnsafeUndo, [], manual_repo)
   \<and> fst (undoLast snap_prefixed False snap_repo) =
        Undone \<lparr>snapshot_id = 1, message = ''[Snap 2024-01-01 14:20] fix'',
                createdByTool = True, timestamp = 8\<rparr>"
proof -
  have a: "lastSnapshot snap_prefixed manual_repo =
      Some \<lparr>snapshot_id = 1, message = ''release 2.0'', createdByTool = False, timestamp = 8\<rparr>"
    by (simp add: lastSnapshot_def manual_repo_def snap_prefixed_def)
  have b: "fst (undoLast snap_prefixed False snap_repo) =
        Undone \<lparr>snapshot_id = 1, message = ''[Snap 2024-01-01 14:20] fix'',
                createdByTool = True, timestamp = 8\<rparr>"
    by (simp add: undoLast_def lastSnapshot_def snap_repo_def snap_prefixed_def)
  from undoLast_refuses_foreign_commit
         [of snap_prefixed manual_repo
             "\<lparr>snapshot_id = 1, message = ''release 2.0'', createdByTool = False, timestamp = 8\<rparr>"]
       a b
  show ?thesis by simp
qed

text \<open>
  C6. When the last commit was created by the tool, \<open>undoLast\<close> (with or without
  force) removes exactly that commit from the history; nothing is staged afterwards;
  the changes of the removed commit are among the unstaged changes, ahead of those that
  were pending before; and the content of every path of the working tree is what it
  was before the undo.
\<close>

theorem undoLast_rewinds_one_commit:
  assumes "lastSnapshot tool r = Some s" and "createdByTool s"
  shows "fst (undoLast tool force r) = Undone s
         \<and> fst (snd (undoLast tool force r)) = [GitCall ResetSoftParent, GitCall ResetHead]
         \<and> (\<exists>c. history r = c # history (snd (snd (undoLast tool force r)))
                \<and> c_message c = message s
                \<and> unstaged (snd (snd (undoLast tool force r)))
                    = c_changes c @ staged r @ unstaged r)
         \<and> Suc (length (history (snd (snd (undoLast tool force r))))) = length (history r)
         \<and> staged (snd (snd (undoLast tool force r))) = []
         \<and> working_tree (snd (snd (undoLast tool force r))) = working_tree r"
proof -
  from assms(1) obtain c cs where h: "history r = c # cs"
    and s: "s = \<lparr>snapshot_id = c_id c, message = c_message c,
                 createdByTool = tool (c_message c), timestamp = c_time c\<rparr>"
    by (auto simp: lastSnapshot_def split: list.splits)
  let ?r' = "repo_reset_head (repo_reset_soft_parent r)"
  from assms have u: "undoLast tool force r =
      (Undone s, [GitCall ResetSoftParent, GitCall ResetHead], ?r')"
    by (simp add: undoLast_def)
  have hist: "history ?r' = cs"
    using h by (simp add: repo_reset_head_def repo_reset_soft_parent_def)
  have unst: "unstaged ?r' = c_changes c @ staged r @ unstaged r"
    using h by (simp add: repo_reset_head_def repo_reset_soft_parent_def)
  have st: "staged ?r' = []"
    by (simp add: repo_reset_head_def)
  have wt: "working_tree ?r' = working_tree r"
    using all_changes_undo [OF h] by (simp add: working_tree_def)
  from u h s hist unst st wt show ?thesis by simp
qed

theorem undoLast_rewinds_one_commit_witness:
  "lastSnapshot snap_prefixed snap_repo =
      Some \<lparr>snapshot_id = 1, message = ''[Snap 2024-01-01 14:20] fix'',
            createdByTool = True, timestamp = 8\<rparr>
   \<and> map c_message (history (snd (snd (undoLast snap_prefixed False snap_repo)))) = [''init'']
   \<and> staged (snd (snd (undoLast snap_prefixed False snap_repo))) = []
   \<and> unstaged (snd (snd (undoLast snap_prefixed False snap_repo)))
       = [(''b.txt'', Some ''y''), (''c.txt'', Some ''z'')]
   \<and> working_tree (snd (snd (undoLast snap_prefixed False snap_repo))) = working_tree snap_repo"
proof -
  have a: "lastSnapshot snap_prefixed snap_repo =
      Some \<lparr>snapshot_id = 1, message = ''[Snap 2024-01-01 14:20] fix'',
            createdByTool = True, timestamp = 8\<rparr>"
    by (simp add: lastSnapshot_def snap_repo_def snap_prefixed_def)
  have b: "snd (snd (undoLast snap_prefixed False snap_repo)) =
     \<lparr>tracked = True, now = 9,
      history = [\<lparr>c_id = 0, c_message = ''init'', c_time = 3,
                   c_changes = [(''a.txt'', Some ''x'')]\<rparr>],
      staged = [], unstaged = [(''b.txt'', Some ''y''), (''c.txt'', Some ''z'')]\<rparr>"
    by (simp add: undoLast_def lastSnapshot_def snap_repo_def snap_prefixed_def
          repo_reset_head_def repo_reset_soft_parent_def)
  from undoLast_rewinds_one_commit [OF a, of False]
  have "working_tree (snd (snd (undoLast snap_prefixed False snap_repo))) = working_tree snap_repo"
    by simp
  with a b show ?thesis by simp
qed

end
